theory Spec2Isabelle
  imports Complex_Main "HOL-Library.AList"
begin

section \<open>Python values, dictionaries and exceptions\<close>

text \<open>
  The values that travel through keyword dictionaries and decoded JSON documents: the
  JSON-shaped fragment of Python's values. Numbers are the unbounded integers.
\<close>

datatype pyval =
    VNone
  | VBool bool
  | VInt int
  | VStr string
  | VList "pyval list"
  | VDict "(string \<times> pyval) list"

text \<open>
  A decoded JSON object keeps its entries in the order of the document: the association
  list of \<open>VDict\<close>. A dict of keyword arguments or of metadata is used as a mapping only: a
  map from names to values.
\<close>

type_synonym kwargs = "string \<rightharpoonup> pyval"

datatype error =
    ValueError
  | TypeError
  | KeyError
  | IndexError
  | AttributeError
  | ZeroDivisionError
  | RuntimeError
  | RateLimitError
  | OtherError string

text \<open>
  \<^verbatim>\<open>{**d, **ov}\<close> is \<open>d ++ ov\<close>: every key of \<open>ov\<close> with the value \<open>ov\<close> gives it, every
  other key of \<open>d\<close> with the value of \<open>d\<close>.
  \<^verbatim>\<open>x or {}\<close> for an optional dict: \<open>None\<close> and the empty dict are both falsy.
\<close>

definition or_empty :: "('k \<rightharpoonup> 'v) option \<Rightarrow> ('k \<rightharpoonup> 'v)" where
  "or_empty x = (case x of None \<Rightarrow> Map.empty | Some d \<Rightarrow> d)"

text \<open>\<^verbatim>\<open>d.pop(key, default)\<close>, the value it returns.\<close>

definition pop_default :: "kwargs \<Rightarrow> string \<Rightarrow> pyval \<Rightarrow> pyval" where
  "pop_default d k dflt = (case d k of None \<Rightarrow> dflt | Some v \<Rightarrow> v)"

text \<open>
  \<^verbatim>\<open>v > 1\<close>: defined on integers and on booleans (which are the integers 0 and 1); any
  other operand raises \<open>TypeError\<close>.
\<close>

fun gt_one :: "pyval \<Rightarrow> error + bool" where
  "gt_one (VInt i) = Inr (1 < i)"
| "gt_one (VBool b) = Inr False"
| "gt_one v = Inl TypeError"

section \<open>The chat-completion adapter (\<^verbatim>\<open>providers/llm/openai.py\<close>)\<close>

subsection \<open>Data\<close>

datatype role = User | Assistant | System

text \<open>One entry of \<open>choices\<close>, of a streamed chunk (its delta) or of a one-shot completion.\<close>

record choice =
  choice_content :: "string option"
  finish_reason :: "string option"

record completion_chunk =
  chunk_model :: string
  chunk_choices :: "choice list"

record chat_completion =
  completion_model :: string
  completion_choices :: "choice list"

record streaming_chunk =
  sc_content :: string
  sc_meta :: kwargs

record chat_message =
  content :: string
  meta :: kwargs

text \<open>The arguments of one call of \<^verbatim>\<open>client.chat.completions.create\<close>, with the key the client holds.\<close>

record request =
  req_api_key :: string
  req_model :: string
  req_messages :: "(role \<times> string) list"
  req_stream :: bool
  req_kwargs :: kwargs

text \<open>What the call evaluates to: an exception, a stream of chunks, or a completion.\<close>

datatype response =
    Raises error
  | Streamed "completion_chunk list"
  | OneShot chat_completion

record credentials =
  valid :: bool
  token :: string

text \<open>
  The instance. \<open>streaming_callback\<close> is the handle of the configured callback, if any;
  \<open>client_api_key\<close> is \<^verbatim>\<open>self.client.api_key\<close>.
\<close>

record async_generator =
  model :: string
  system_prompt :: "string option"
  generation_kwargs :: kwargs
  streaming_callback :: "nat option"
  client_api_key :: string
  vertexai_creds :: "credentials option"

text \<open>The observable effects of a call, in the order they happen.\<close>

datatype event =
    Refresh
  | CreateCall request
  | Callback nat streaming_chunk
  | Backoff

text \<open>
  The world around the adapter: the answer to the i-th try's \<open>create\<close> call, the seconds
  elapsed since the first try when the i-th try starts, what refreshing a credential
  gives, and the attributes the client object has.
\<close>

record env =
  responses :: "nat \<Rightarrow> response"
  elapsed :: "nat \<Rightarrow> nat"
  refresh :: "credentials \<Rightarrow> error + credentials"
  client_attrs :: "string list"

text \<open>
  The methods \<open>run\<close> inherits from the generator it extends; they are not part of this
  repository and \<open>run\<close> is modelled over any implementation of them.
\<close>

record inherited =
  build_chunk :: "completion_chunk \<Rightarrow> streaming_chunk"
  connect_chunks :: "completion_chunk option \<Rightarrow> streaming_chunk list \<Rightarrow> chat_message"
  build_message :: "chat_completion \<Rightarrow> choice \<Rightarrow> chat_message"

record run_result =
  replies :: "string list"
  metas :: "kwargs list"

subsection \<open>Construction\<close>

text \<open>
  \<^verbatim>\<open>__init__\<close>: the client is created with the API key; a model whose name starts with
  \<^verbatim>\<open>google/\<close> also takes the ambient default credentials, whose lookup may raise.
\<close>

definition init ::
  "string \<Rightarrow> string \<Rightarrow> nat option \<Rightarrow> string option \<Rightarrow> kwargs option
     \<Rightarrow> (error + credentials) \<Rightarrow> error + async_generator" where
  "init api_key mdl cb sys_prompt gen_kwargs auth_default =
     (let g = \<lparr> model = mdl, system_prompt = sys_prompt,
                generation_kwargs = or_empty gen_kwargs, streaming_callback = cb,
                client_api_key = api_key, vertexai_creds = None \<rparr>
      in if take 7 mdl = ''google/''
         then (case auth_default of
                 Inl e \<Rightarrow> Inl e
               | Inr c \<Rightarrow> Inr (g\<lparr> vertexai_creds := Some c \<rparr>))
         else Inr g)"

subsection \<open>Attribute access\<close>

text \<open>
  \<^verbatim>\<open>__getattr__\<close> (lines 72-83): refresh a credential that is not valid, fail if it still is
  not, store the new token in the client, then hand the name to the client.
\<close>

definition dunder_getattr ::
  "env \<Rightarrow> async_generator \<Rightarrow> string \<Rightarrow> async_generator \<times> event list \<times> (error + unit)" where
  "dunder_getattr w g name =
     (let deleg = (\<lambda>g' evs. (g', evs, if name \<in> set (client_attrs w) then Inr () else Inl AttributeError))
      in case vertexai_creds g of
           None \<Rightarrow> deleg g []
         | Some c \<Rightarrow>
             if \<not> valid c then
               (case refresh w c of
                  Inl e \<Rightarrow> (g, [Refresh], Inl e)
                | Inr c' \<Rightarrow>
                    if \<not> valid c' then (g\<lparr> vertexai_creds := Some c' \<rparr>, [Refresh], Inl RuntimeError)
                    else deleg (g\<lparr> vertexai_creds := Some c', client_api_key := token c' \<rparr>) [Refresh])
             else deleg g [])"

text \<open>
  The names that ordinary lookup finds on the instance: the attributes the constructors
  assign (\<^verbatim>\<open>client\<close> on line 56, \<^verbatim>\<open>_vertexai_creds\<close> on line 66, the configuration the
  parent constructor stores) and the methods of the class and its parent.
\<close>

definition instance_attributes :: "string list" where
  "instance_attributes =
     [''api_key'', ''model'', ''streaming_callback'', ''api_base_url'', ''organization'',
      ''system_prompt'', ''generation_kwargs'', ''timeout'', ''client'', ''_vertexai_creds'']"

definition class_attributes :: "string list" where
  "class_attributes =
     [''__init__'', ''__getattr__'', ''run'', ''_build_chunk'', ''_connect_chunks'',
      ''_build_message'', ''_check_finish_reason'']"

text \<open>
  \<^verbatim>\<open>self.name\<close>: Python calls \<^verbatim>\<open>__getattr__\<close> only when ordinary lookup has failed.
\<close>

definition self_attr ::
  "env \<Rightarrow> async_generator \<Rightarrow> string \<Rightarrow> async_generator \<times> event list \<times> (error + unit)" where
  "self_attr w g name =
     (if name \<in> set instance_attributes \<or> name \<in> set class_attributes then (g, [], Inr ())
      else dunder_getattr w g name)"

text \<open>Reading several attributes in turn; the first failure ends the sequence.\<close>

fun self_attrs ::
  "env \<Rightarrow> async_generator \<Rightarrow> string list \<Rightarrow> async_generator \<times> event list \<times> (error + unit)" where
  "self_attrs w g [] = (g, [], Inr ())"
| "self_attrs w g (name # names) =
     (case self_attr w g name of
        (g', evs, Inl e) \<Rightarrow> (g', evs, Inl e)
      | (g', evs, Inr u) \<Rightarrow>
          (case self_attrs w g' names of (g'', evs', r) \<Rightarrow> (g'', evs @ evs', r)))"

subsection \<open>One execution of the body of \<open>run\<close>\<close>

text \<open>Lines 91-96: the system prompt, when truthy, goes first, under the assistant role.\<close>

definition messages_of :: "async_generator \<Rightarrow> string \<Rightarrow> (role \<times> string) list" where
  "messages_of g prompt =
     (case system_prompt g of
        None \<Rightarrow> [(User, prompt)]
      | Some s \<Rightarrow> if s = [] then [(User, prompt)] else [(Assistant, s), (User, prompt)])"

text \<open>Line 99.\<close>

definition effective_kwargs :: "async_generator \<Rightarrow> kwargs option \<Rightarrow> kwargs" where
  "effective_kwargs g ov = generation_kwargs g ++ or_empty ov"

text \<open>Lines 106-111.\<close>

definition request_of :: "async_generator \<Rightarrow> string \<Rightarrow> kwargs option \<Rightarrow> request" where
  "request_of g prompt ov =
     \<lparr> req_api_key = client_api_key g, req_model = model g,
       req_messages = messages_of g prompt,
       req_stream = (streaming_callback g \<noteq> None),
       req_kwargs = effective_kwargs g ov \<rparr>"

text \<open>
  Lines 118-128: the chunks that have choices, while a callback is configured, are built,
  collected and handed to the callback.
\<close>

definition collect_chunks :: "inherited \<Rightarrow> async_generator \<Rightarrow> completion_chunk list \<Rightarrow> streaming_chunk list" where
  "collect_chunks h g cs =
     map (build_chunk h) (filter (\<lambda>c. chunk_choices c \<noteq> [] \<and> streaming_callback g \<noteq> None) cs)"

definition callbacks_of :: "async_generator \<Rightarrow> streaming_chunk list \<Rightarrow> event list" where
  "callbacks_of g ds = (case streaming_callback g of None \<Rightarrow> [] | Some cb \<Rightarrow> map (Callback cb) ds)"

text \<open>The loop variable \<open>chunk\<close> after the loop: the last chunk of the stream, or \<open>None\<close>.\<close>

definition last_chunk :: "completion_chunk list \<Rightarrow> completion_chunk option" where
  "last_chunk cs = (if cs = [] then None else Some (last cs))"

definition result_of :: "chat_message list \<Rightarrow> run_result" where
  "result_of ms = \<lparr> replies = map content ms, metas = map meta ms \<rparr>"

text \<open>
  Lines 90-142, as the i-th try. The attributes of \<open>self\<close> are read in the order the body
  reads them; the call of \<open>create\<close> is recorded, and its answer is the world's. The check
  of the finish reason (lines 136-137) only logs.
\<close>

definition run_body ::
  "inherited \<Rightarrow> env \<Rightarrow> string \<Rightarrow> kwargs option \<Rightarrow> nat \<Rightarrow> async_generator
     \<Rightarrow> async_generator \<times> event list \<times> (error + run_result)" where
  "run_body h w prompt ov i g =
     (case self_attrs w g [''system_prompt'', ''generation_kwargs'', ''client'', ''model'',
                           ''streaming_callback''] of
        (g', evs, Inl e) \<Rightarrow> (g', evs, Inl e)
      | (g', evs, Inr u) \<Rightarrow>
          (let kwargs = effective_kwargs g' ov;
               evs1 = evs @ [CreateCall (request_of g' prompt ov)]
           in case responses w i of
                Raises e \<Rightarrow> (g', evs1, Inl e)
              | Streamed cs \<Rightarrow>
                  (case gt_one (pop_default kwargs ''n'' (VInt 1)) of
                     Inl e \<Rightarrow> (g', evs1, Inl e)
                   | Inr True \<Rightarrow> (g', evs1, Inl ValueError)
                   | Inr False \<Rightarrow>
                       (let chunks = collect_chunks h g' cs
                        in (g', evs1 @ callbacks_of g' chunks,
                            Inr (result_of [connect_chunks h (last_chunk cs) chunks]))))
              | OneShot c \<Rightarrow>
                  (g', evs1, Inr (result_of (map (build_message h c) (completion_choices c))))))"

subsection \<open>The retry decorator\<close>

text \<open>
  Modelled from the spec: the retry decorator of line 86 is the backoff library's and is
  missing from the sources. "The backend call is retried with exponential backoff on
  rate-limit responses specifically, up to 3 attempts total, bounded by a 60-time-unit
  overall ceiling; all other failures propagate immediately without retry." The source
  passes \<^verbatim>\<open>max_tries=3\<close> and \<^verbatim>\<open>max_time=60\<close>. A try that raises another exception, or that is
  the \<open>max_tries\<close>-th, or that started \<open>max_time\<close> or more after the first, re-raises;
  otherwise the decorator sleeps and runs the whole body again. \<open>tries\<close> counts the tries
  already made, \<open>clock\<close> gives the seconds elapsed when a try starts.
\<close>

function on_exception ::
  "nat \<Rightarrow> nat \<Rightarrow> (nat \<Rightarrow> nat) \<Rightarrow> (nat \<Rightarrow> 's \<Rightarrow> 's \<times> event list \<times> (error + 'a))
     \<Rightarrow> nat \<Rightarrow> 's \<Rightarrow> 's \<times> event list \<times> (error + 'a)" where
  "on_exception max_tries max_time clock target tries s =
     (case target tries s of
        (s', evs, Inr r) \<Rightarrow> (s', evs, Inr r)
      | (s', evs, Inl e) \<Rightarrow>
          if e \<noteq> RateLimitError then (s', evs, Inl e)
          else if max_tries \<le> tries + 1 \<or> max_time \<le> clock tries then (s', evs, Inl e)
          else (case on_exception max_tries max_time clock target (tries + 1) s' of
                  (s'', evs', r) \<Rightarrow> (s'', evs @ Backoff # evs', r)))"
  by pat_completeness auto
termination
  by (relation "measure (\<lambda>(max_tries, max_time, clock, target, tries, s). max_tries - tries)") auto

declare on_exception.simps [simp del]

definition run ::
  "inherited \<Rightarrow> env \<Rightarrow> async_generator \<Rightarrow> string \<Rightarrow> kwargs option
     \<Rightarrow> async_generator \<times> event list \<times> (error + run_result)" where
  "run h w g prompt ov = on_exception 3 60 (elapsed w) (run_body h w prompt ov) 0 g"

text \<open>The calls of \<open>create\<close> among the events.\<close>

fun create_calls :: "event list \<Rightarrow> request list" where
  "create_calls [] = []"
| "create_calls (CreateCall r # evs) = r # create_calls evs"
| "create_calls (ev # evs) = create_calls evs"


text \<open>
  The i-th try is made: \<open>i\<close> is below the three tries allowed, and every earlier try was
  answered with the rate-limit error and started less than 60 seconds after the first.
\<close>

definition reaches :: "env \<Rightarrow> nat \<Rightarrow> bool" where
  "reaches w i =
     (i < 3 \<and> list_all (\<lambda>j. responses w j = Raises RateLimitError \<and> elapsed w j < 60) [0..<i])"

text \<open>The events of \<open>i\<close> tries that were rate-limited and backed off from.\<close>

definition retried :: "request \<Rightarrow> nat \<Rightarrow> event list" where
  "retried r i = concat (replicate i [CreateCall r, Backoff])"

subsection \<open>The inherited helpers\<close>

text \<open>
  Modelled from the spec: the text of a stream chunk, the "partial text fragment" of the
  spec's StreamChunk. The parent generator's chunk builder is missing from the sources;
  the fragment is the content of the chunk's first choice, empty when it carries none.
\<close>

definition chunk_text :: "completion_chunk \<Rightarrow> string" where
  "chunk_text c =
     (case chunk_choices c of
        [] \<Rightarrow> []
      | ch # _ \<Rightarrow> (case choice_content ch of None \<Rightarrow> [] | Some s \<Rightarrow> s))"

text \<open>
  Modelled from the spec: the parent generator's \<^verbatim>\<open>_build_chunk\<close>, missing from the sources.
  A StreamChunk is the "partial text fragment plus optional metadata".
\<close>

definition spec_build_chunk :: "completion_chunk \<Rightarrow> streaming_chunk" where
  "spec_build_chunk c =
     \<lparr> sc_content = chunk_text c,
       sc_meta = (case chunk_choices c of
                    [] \<Rightarrow> Map.empty
                  | ch # _ \<Rightarrow> (case finish_reason ch of
                                None \<Rightarrow> Map.empty
                              | Some r \<Rightarrow> [''finish_reason'' \<mapsto> VStr r])) \<rparr>"

text \<open>
  Modelled from the spec: the parent generator's \<^verbatim>\<open>_connect_chunks\<close>, missing from the
  sources. "After the stream ends, assemble the chunks (in arrival order) into exactly one
  completion": its text is the chunks' fragments in order, its metadata that of the last
  chunk.
\<close>

definition spec_connect_chunks :: "completion_chunk option \<Rightarrow> streaming_chunk list \<Rightarrow> chat_message" where
  "spec_connect_chunks final chunks =
     \<lparr> content = concat (map sc_content chunks),
       meta = (case final of None \<Rightarrow> Map.empty | Some c \<Rightarrow> sc_meta (spec_build_chunk c)) \<rparr>"

text \<open>
  Modelled from the spec: the parent generator's \<^verbatim>\<open>_build_message\<close>, missing from the
  sources. A Completion is "text content, associated metadata", one per returned choice.
\<close>

definition spec_build_message :: "chat_completion \<Rightarrow> choice \<Rightarrow> chat_message" where
  "spec_build_message c ch =
     \<lparr> content = (case choice_content ch of None \<Rightarrow> [] | Some s \<Rightarrow> s),
       meta = (case finish_reason ch of
                 None \<Rightarrow> [''model'' \<mapsto> VStr (completion_model c)]
               | Some r \<Rightarrow> [''model'' \<mapsto> VStr (completion_model c), ''finish_reason'' \<mapsto> VStr r]) \<rparr>"

definition parent :: inherited where
  "parent = \<lparr> build_chunk = spec_build_chunk, connect_chunks = spec_connect_chunks,
              build_message = spec_build_message \<rparr>"


subsection \<open>The provider\<close>

record openai_llm_provider =
  api_key :: string
  api_base :: string
  generation_model :: string
  model_kwargs :: kwargs
  timeout :: nat

text \<open>
  \<^verbatim>\<open>get_generator\<close> (lines 174-197). Unpacking \<^verbatim>\<open>**generation_kwargs\<close> when the argument is
  left at its default \<open>None\<close> raises \<open>TypeError\<close>; otherwise the generator is constructed
  with \<^verbatim>\<open>{**generation_kwargs, **self._model_kwargs}\<close> and without a streaming callback.
\<close>

definition get_generator ::
  "openai_llm_provider \<Rightarrow> (error + credentials) \<Rightarrow> string option \<Rightarrow> kwargs option
     \<Rightarrow> error + async_generator" where
  "get_generator p auth_default sys_prompt gen_kwargs =
     (case gen_kwargs of
        None \<Rightarrow> Inl TypeError
      | Some gk \<Rightarrow>
          init (api_key p) (generation_model p) None sys_prompt (Some (gk ++ model_kwargs p))
            auth_default)"

section \<open>The recall metric (\<^verbatim>\<open>eval/metrics/context_recall.py\<close>)\<close>






section \<open>The normalizer (\<^verbatim>\<open>pipelines/generation/semantics_description.py\<close>)\<close>

text \<open>
  Text is a list of characters with code points below 256. \<open>is_space\<close> is the whitespace
  of \<^verbatim>\<open>str.split()\<close> and \<^verbatim>\<open>str.strip()\<close> in that range.
\<close>

definition is_space :: "char \<Rightarrow> bool" where
  "is_space c =
     (c \<in> set [CHR 0x09, CHR 0x0A, CHR 0x0B, CHR 0x0C, CHR 0x0D, CHR 0x1C, CHR 0x1D, CHR 0x1E,
               CHR 0x1F, CHR 0x20, CHR 0x85, CHR 0xA0])"

text \<open>\<^verbatim>\<open>text.replace("\n", " ")\<close>.\<close>

definition replace_newlines :: "string \<Rightarrow> string" where
  "replace_newlines text = map (\<lambda>c. if c = CHR 0x0A then CHR 0x20 else c) text"

text \<open>\<^verbatim>\<open>text.split()\<close>: the maximal runs of non-whitespace; \<open>word\<close> is the run being read, reversed.\<close>

fun split_words :: "string \<Rightarrow> string \<Rightarrow> string list" where
  "split_words word [] = (if word = [] then [] else [rev word])"
| "split_words word (c # cs) =
     (if is_space c then (if word = [] then split_words [] cs else rev word # split_words [] cs)
      else split_words (c # word) cs)"

definition split :: "string \<Rightarrow> string list" where
  "split text = split_words [] text"

text \<open>\<^verbatim>\<open>" ".join(words)\<close>.\<close>

fun join :: "string list \<Rightarrow> string" where
  "join [] = []"
| "join [w] = w"
| "join (w # ws) = w @ CHR 0x20 # join ws"

text \<open>\<^verbatim>\<open>text.strip()\<close>.\<close>

definition strip :: "string \<Rightarrow> string" where
  "strip text = rev (dropWhile is_space (rev (dropWhile is_space text)))"

text \<open>
  \<open>wrapper\<close> (lines 58-67). \<open>loads\<close> is the JSON decoder of the library, a parameter: \<open>None\<close>
  is its decode error, which the wrapper catches and answers with the empty dict.
\<close>

definition wrapper :: "(string \<Rightarrow> pyval option) \<Rightarrow> string \<Rightarrow> pyval" where
  "wrapper loads text =
     (let text1 = replace_newlines text;
          text2 = join (split text1)
      in case loads (strip text2) of
           Some text_dict \<Rightarrow> text_dict
         | None \<Rightarrow> VDict [])"

text \<open>\<^verbatim>\<open>v[key]\<close> for a string key: only a dict takes one, and raises on a missing key.\<close>

fun subscript :: "pyval \<Rightarrow> string \<Rightarrow> error + pyval" where
  "subscript (VDict d) key = (case map_of d key of None \<Rightarrow> Inl KeyError | Some v \<Rightarrow> Inr v)"
| "subscript v key = Inl TypeError"

text \<open>\<^verbatim>\<open>for x in v\<close>: the items of a list, the keys of a dict, the characters of a string.\<close>

fun iterate :: "pyval \<Rightarrow> error + pyval list" where
  "iterate (VList xs) = Inr xs"
| "iterate (VDict d) = Inr (map (\<lambda>(k, v). VStr k) d)"
| "iterate (VStr s) = Inr (map (\<lambda>c. VStr [c]) s)"
| "iterate v = Inl TypeError"

text \<open>A dict key must be hashable: lists and dicts are not.\<close>

fun hashable :: "pyval \<Rightarrow> bool" where
  "hashable (VList xs) = False"
| "hashable (VDict d) = False"
| "hashable v = True"

text \<open>The dict comprehension of line 76, entry by entry in iteration order.\<close>

fun by_name :: "pyval list \<Rightarrow> (pyval \<times> pyval) list \<Rightarrow> error + (pyval \<times> pyval) list" where
  "by_name [] acc = Inr acc"
| "by_name (mdl # mdls) acc =
     (case subscript mdl ''name'' of
        Inl e \<Rightarrow> Inl e
      | Inr name \<Rightarrow>
          if hashable name then by_name mdls (AList.update name mdl acc) else Inl TypeError)"

text \<open>\<^verbatim>\<open>normalize\<close> (lines 57-76), applied to what the generator returned.\<close>

definition normalize_py :: "(string \<Rightarrow> pyval option) \<Rightarrow> run_result \<Rightarrow> error + (pyval \<times> pyval) list" where
  "normalize_py loads generate =
     (case replies generate of
        [] \<Rightarrow> Inl IndexError
      | reply # _ \<Rightarrow>
          (let normalized = wrapper loads reply
           in case subscript normalized ''models'' of
                Inl e \<Rightarrow> Inl e
              | Inr models \<Rightarrow>
                  (case iterate models of
                     Inl e \<Rightarrow> Inl e
                   | Inr mdls \<Rightarrow> by_name mdls [])))"

section \<open>Sample inputs\<close>

text \<open>
  Concrete values at which the theorems below are instantiated: a world without delays
  whose credential refresh returns the credential as it is, a generator for the default
  model, a completion with one choice, and backends that answer the first \<open>k\<close> tries with
  the rate-limit error or every try with a given error.
\<close>

definition quiet_world :: "(nat \<Rightarrow> response) \<Rightarrow> env" where
  "quiet_world rs = \<lparr> responses = rs, elapsed = (\<lambda>i. 0), refresh = Inr, client_attrs = [''chat''] \<rparr>"

definition sample_generator :: "nat option \<Rightarrow> kwargs \<Rightarrow> async_generator" where
  "sample_generator cb kw =
     \<lparr> model = ''gpt-4o-mini'', system_prompt = None, generation_kwargs = kw,
       streaming_callback = cb, client_api_key = ''sk'', vertexai_creds = None \<rparr>"






definition answering :: "chat_completion \<Rightarrow> nat \<Rightarrow> response" where
  "answering c i = OneShot c"

definition two_choices :: chat_completion where
  "two_choices =
     \<lparr> completion_model = ''gpt-4o-mini'',
       completion_choices = [\<lparr> choice_content = Some ''first'', finish_reason = Some ''stop'' \<rparr>,
                             \<lparr> choice_content = Some ''second'', finish_reason = Some ''length'' \<rparr>] \<rparr>"



text \<open>A provider with stored model options, an engine answering two queries, a decoder of five documents.\<close>

definition sample_provider :: openai_llm_provider where
  "sample_provider =
     \<lparr> api_key = ''sk'', api_base = ''https://api.openai.com/v1'', generation_model = ''gpt-4o-mini'',
       model_kwargs = [''temperature'' \<mapsto> VInt 0, ''n'' \<mapsto> VInt 1, ''max_tokens'' \<mapsto> VInt 4096],
       timeout = 120 \<rparr>"


definition sample_loads :: "string \<Rightarrow> pyval option" where
  "sample_loads s =
     (if s = ''null'' then Some VNone
      else if s = ''true'' then Some (VBool True)
      else if s = ''false'' then Some (VBool False)
      else if s = ''[]'' then Some (VList [])
      else if s = ''{}'' then Some (VDict [])
      else None)"

section \<open>Properties of the adapter\<close>

subsection \<open>The body of \<open>run\<close> and the retry loop\<close>

text \<open>
  Every attribute the body reads is found by ordinary lookup, so the body always reaches
  the call of \<open>create\<close>, with the instance unchanged.
\<close>

lemma self_attrs_run:
  "self_attrs w g [''system_prompt'', ''generation_kwargs'', ''client'', ''model'', ''streaming_callback'']
     = (g, [], Inr ())"
  by (simp add: self_attr_def instance_attributes_def)

lemma run_body_unfold:
  "run_body h w prompt ov i g =
     (case responses w i of
        Raises e \<Rightarrow> (g, [CreateCall (request_of g prompt ov)], Inl e)
      | Streamed cs \<Rightarrow>
          (case gt_one (pop_default (effective_kwargs g ov) ''n'' (VInt 1)) of
             Inl e \<Rightarrow> (g, [CreateCall (request_of g prompt ov)], Inl e)
           | Inr True \<Rightarrow> (g, [CreateCall (request_of g prompt ov)], Inl ValueError)
           | Inr False \<Rightarrow>
               (g, CreateCall (request_of g prompt ov) # callbacks_of g (collect_chunks h g cs),
                Inr (result_of [connect_chunks h (last_chunk cs) (collect_chunks h g cs)])))
      | OneShot c \<Rightarrow>
          (g, [CreateCall (request_of g prompt ov)],
           Inr (result_of (map (build_message h c) (completion_choices c)))))"
  unfolding run_body_def self_attrs_run
  by (simp add: Let_def split: response.splits sum.splits bool.splits)

lemma on_exception_ok:
  "target i s = (s', evs, Inr r) \<Longrightarrow> on_exception m t c target i s = (s', evs, Inr r)"
  by (simp add: on_exception.simps [of m t c target i s])

lemma on_exception_other:
  "target i s = (s', evs, Inl e) \<Longrightarrow> e \<noteq> RateLimitError
     \<Longrightarrow> on_exception m t c target i s = (s', evs, Inl e)"
  by (simp add: on_exception.simps [of m t c target i s])

lemma on_exception_giveup:
  "target i s = (s', evs, Inl e) \<Longrightarrow> m \<le> Suc i \<or> t \<le> c i
     \<Longrightarrow> on_exception m t c target i s = (s', evs, Inl e)"
  by (auto simp add: on_exception.simps [of m t c target i s])

lemma on_exception_retry:
  "target i s = (s', evs, Inl RateLimitError) \<Longrightarrow> Suc i < m \<Longrightarrow> c i < t
     \<Longrightarrow> on_exception m t c target (Suc i) s' = (s'', evs', r)
     \<Longrightarrow> on_exception m t c target i s = (s'', evs @ Backoff # evs', r)"
  by (simp add: on_exception.simps [of m t c target i s])



lemma run_body_raises:
  "responses w i = Raises e
     \<Longrightarrow> run_body h w prompt ov i g = (g, [CreateCall (request_of g prompt ov)], Inl e)"
  by (simp add: run_body_unfold)

lemma run_body_one_shot:
  "responses w i = OneShot c
     \<Longrightarrow> run_body h w prompt ov i g =
         (g, [CreateCall (request_of g prompt ov)],
          Inr (result_of (map (build_message h c) (completion_choices c))))"
  by (simp add: run_body_unfold)




lemma on_exception_final:
  assumes "target i s = (s', evs, r)" and "r \<noteq> Inl RateLimitError"
  shows "on_exception m t c target i s = (s', evs, r)"
proof (cases r)
  case (Inl e)
  with assms show ?thesis by (simp add: on_exception_other)
next
  case (Inr x)
  with assms show ?thesis by (simp add: on_exception_ok)
qed

lemma on_exception_reaches:
  assumes "k \<le> i" and "i < m"
    and early: "\<forall>j. k \<le> j \<and> j < i \<longrightarrow> responses w j = Raises RateLimitError \<and> clock j < t"
    and final: "run_body h w prompt ov i g = (g, evs, r)" and "r \<noteq> Inl RateLimitError"
  shows "on_exception m t clock (run_body h w prompt ov) k g
           = (g, retried (request_of g prompt ov) (i - k) @ evs, r)"
  using \<open>k \<le> i\<close> early
proof (induction rule: inc_induct)
  case base
  from final \<open>r \<noteq> Inl RateLimitError\<close> show ?case
    by (simp add: on_exception_final retried_def)
next
  case (step n)
  then have rec: "on_exception m t clock (run_body h w prompt ov) (Suc n) g
           = (g, retried (request_of g prompt ov) (i - Suc n) @ evs, r)"
    by simp
  from step have "responses w n = Raises RateLimitError" and "clock n < t" by auto
  then have "run_body h w prompt ov n g
               = (g, [CreateCall (request_of g prompt ov)], Inl RateLimitError)"
    by (simp add: run_body_raises)
  moreover from step \<open>i < m\<close> have "Suc n < m" by simp
  moreover have "i - n = Suc (i - Suc n)" using step by simp
  ultimately show ?case
    using on_exception_retry [OF _ _ \<open>clock n < t\<close> rec] by (simp add: retried_def)
qed

lemma run_reaches:
  assumes "reaches w i" and "run_body h w prompt ov i g = (g, evs, r)" and "r \<noteq> Inl RateLimitError"
  shows "run h w g prompt ov = (g, retried (request_of g prompt ov) i @ evs, r)"
  unfolding run_def
  using on_exception_reaches [of 0 i 3 w "elapsed w" 60 h prompt ov g evs r] assms
  by (simp add: reaches_def list_all_iff)

lemma run_body_state: "fst (run_body h w prompt ov i g) = g"
  by (simp add: run_body_unfold split: response.splits sum.splits bool.splits)





lemma create_calls_retried: "create_calls (retried r i) = replicate i r"
  by (induction i) (simp_all add: retried_def)




subsection \<open>Streaming with several candidates\<close>




subsection \<open>Credential refresh\<close>

text \<open>
  Whatever the world, the instance and the arguments: \<open>run\<close> returns the instance as it
  was given and no refresh is among its events.
\<close>

lemma run_body_no_refresh: "Refresh \<notin> set (fst (snd (run_body h w prompt ov i g)))"
  by (auto simp: run_body_unfold callbacks_of_def split: response.splits sum.splits bool.splits option.splits)

lemma on_exception_no_refresh:
  "fst (on_exception m t clock (run_body h w prompt ov) i g) = g \<and>
   Refresh \<notin> set (fst (snd (on_exception m t clock (run_body h w prompt ov) i g)))"
proof (induction m t clock "run_body h w prompt ov" i g rule: on_exception.induct)
  case (1 m t clock i g)
  obtain evs r where rb: "run_body h w prompt ov i g = (g, evs, r)"
    using run_body_state [of h w prompt ov i g] by (cases "run_body h w prompt ov i g") auto
  have nr: "Refresh \<notin> set evs"
    using run_body_no_refresh [of h w prompt ov i g] rb by simp
  show ?case
  proof (cases "r = Inl RateLimitError \<and> Suc i < m \<and> clock i < t")
    case False
    then have "on_exception m t clock (run_body h w prompt ov) i g = (g, evs, r)"
      using rb by (cases r) (auto simp: on_exception_ok on_exception_other on_exception_giveup)
    with nr show ?thesis by simp
  next
    case True
    with rb have ih: "fst (on_exception m t clock (run_body h w prompt ov) (i + 1) g) = g \<and>
        Refresh \<notin> set (fst (snd (on_exception m t clock (run_body h w prompt ov) (i + 1) g)))"
      using "1" by auto
    obtain evs' r' where rec: "on_exception m t clock (run_body h w prompt ov) (Suc i) g = (g, evs', r')"
      using ih by (cases "on_exception m t clock (run_body h w prompt ov) (Suc i) g") auto
    have "on_exception m t clock (run_body h w prompt ov) i g = (g, evs @ Backoff # evs', r')"
      using rb True rec by (intro on_exception_retry) simp_all
    with nr ih rec show ?thesis by simp
  qed
qed

lemma run_never_refreshes:
  "fst (run h w g prompt ov) = g \<and> Refresh \<notin> set (fst (snd (run h w g prompt ov)))"
  unfolding run_def by (rule on_exception_no_refresh)

text \<open>
  What \<^verbatim>\<open>__getattr__\<close> does when it is called with a credential that is not valid: it
  refreshes, and either stores the new token in the client or fails.
\<close>

lemma dunder_getattr_refreshes:
  assumes "vertexai_creds g = Some c" and "\<not> valid c"
  shows "dunder_getattr w g name =
     (case refresh w c of
        Inl e \<Rightarrow> (g, [Refresh], Inl e)
      | Inr c' \<Rightarrow>
          if valid c'
          then (g\<lparr> vertexai_creds := Some c', client_api_key := token c' \<rparr>, [Refresh],
                if name \<in> set (client_attrs w) then Inr () else Inl AttributeError)
          else (g\<lparr> vertexai_creds := Some c' \<rparr>, [Refresh], Inl RuntimeError))"
  using assms by (simp add: dunder_getattr_def split: sum.splits)


subsection \<open>Retry on rate limiting\<close>




subsection \<open>Streamed responses\<close>



subsection \<open>Effective options\<close>



subsection \<open>One-shot responses\<close>

text \<open>
  Claim C7. When the try that is made is answered with a completion, \<open>run\<close> returns one
  reply and one metadata mapping per choice, those of the message built from the choice,
  in the order of the choices.
\<close>

theorem one_shot_choices:
  assumes "reaches w i" and "responses w i = OneShot c"
  shows "snd (snd (run h w g prompt ov))
           = Inr \<lparr> replies = map (\<lambda>ch. content (build_message h c ch)) (completion_choices c),
                   metas = map (\<lambda>ch. meta (build_message h c ch)) (completion_choices c) \<rparr> \<and>
         length (map (\<lambda>ch. content (build_message h c ch)) (completion_choices c))
           = length (completion_choices c) \<and>
         length (map (\<lambda>ch. meta (build_message h c ch)) (completion_choices c))
           = length (completion_choices c)"
proof -
  from assms have "run_body h w prompt ov i g
      = (g, [CreateCall (request_of g prompt ov)],
         Inr (result_of (map (build_message h c) (completion_choices c))))"
    by (simp add: run_body_one_shot)
  with \<open>reaches w i\<close> have "run h w g prompt ov
      = (g, retried (request_of g prompt ov) i @ [CreateCall (request_of g prompt ov)],
         Inr (result_of (map (build_message h c) (completion_choices c))))"
    by (intro run_reaches) simp_all
  then show ?thesis by (simp add: result_of_def comp_def)
qed

theorem one_shot_choices_witness:
  "map_sum id replies
     (snd (snd (run parent (quiet_world (answering two_choices)) (sample_generator None Map.empty) ''hi'' None)))
     = Inr [''first'', ''second''] \<and>
   map_sum id (map (\<lambda>m. m ''finish_reason'') \<circ> metas)
     (snd (snd (run parent (quiet_world (answering two_choices)) (sample_generator None Map.empty) ''hi'' None)))
     = Inr [Some (VStr ''stop''), Some (VStr ''length'')]"
  using one_shot_choices [of "quiet_world (answering two_choices)" 0 two_choices parent
      "sample_generator None Map.empty" "''hi''" None]
  by (simp add: quiet_world_def answering_def reaches_def two_choices_def parent_def spec_build_message_def)

subsection \<open>The message list\<close>



subsection \<open>The provider's merge\<close>

text \<open>
  Claim C9. The generator that \<open>get_generator\<close> constructs has the caller's options
  overwritten by the provider's stored model options: a key present in both has the
  stored value. Inside \<open>run\<close> it is the other way round: a key present in both the
  generator's options and the per-call options has the per-call value.
\<close>

theorem get_generator_precedence:
  assumes "get_generator p a sp (Some gk) = Inr g"
  shows "generation_kwargs g k = (case model_kwargs p k of Some v \<Rightarrow> Some v | None \<Rightarrow> gk k) \<and>
         (k \<in> dom gk \<and> k \<in> dom (model_kwargs p) \<longrightarrow> generation_kwargs g k = model_kwargs p k) \<and>
         (k \<in> dom ov \<and> k \<in> dom (generation_kwargs g) \<longrightarrow> effective_kwargs g (Some ov) k = ov k)"
proof -
  from assms have "generation_kwargs g = gk ++ model_kwargs p"
    by (auto simp: get_generator_def init_def or_empty_def Let_def split: if_splits sum.splits)
  then show ?thesis
    by (auto simp: map_add_def effective_kwargs_def or_empty_def split: option.splits)
qed

theorem get_generator_precedence_witness:
  "map_sum id (\<lambda>g. (generation_kwargs g ''n'', generation_kwargs g ''response_format'',
                      effective_kwargs g (Some [''n'' \<mapsto> VInt 5]) ''n''))
     (get_generator sample_provider (Inl RuntimeError) None
        (Some [''n'' \<mapsto> VInt 3, ''response_format'' \<mapsto> VStr ''json_schema'']))
     = Inr (Some (VInt 1), Some (VStr ''json_schema''), Some (VInt 5))"
proof -
  let ?gk = "[''n'' \<mapsto> VInt 3, ''response_format'' \<mapsto> VStr ''json_schema'']"
  obtain g where g: "get_generator sample_provider (Inl RuntimeError) None (Some ?gk) = Inr g"
    by (simp add: get_generator_def init_def sample_provider_def)
  have "generation_kwargs g ''n'' = Some (VInt 1)"
    and "generation_kwargs g ''response_format'' = Some (VStr ''json_schema'')"
    and "effective_kwargs g (Some [''n'' \<mapsto> VInt 5]) ''n'' = Some (VInt 5)"
    using get_generator_precedence [OF g, of "''n''" "[''n'' \<mapsto> VInt 5]"]
      get_generator_precedence [OF g, of "''response_format''" "[''n'' \<mapsto> VInt 5]"]
    by (auto simp: sample_provider_def)
  with g show ?thesis by simp
qed

section \<open>Properties of the recall metric\<close>



section \<open>Properties of the normalizer\<close>

text \<open>
  Claim C2 fails on the code. For a reply that the decoder rejects, \<open>wrapper\<close> returns the
  empty dict as the claim says, but \<^verbatim>\<open>normalize\<close> then subscripts it with \<^verbatim>\<open>"models"\<close> and
  raises \<open>KeyError\<close>.
\<close>

theorem normalize_malformed_raises:
  assumes "loads (strip (join (split (replace_newlines reply)))) = None"
  shows "wrapper loads reply = VDict [] \<and>
         normalize_py loads \<lparr> replies = reply # rest, metas = ms \<rparr> = Inl KeyError"
  using assms by (simp add: wrapper_def normalize_py_def)

theorem normalize_malformed_raises_witness:
  "strip (join (split (replace_newlines ''Sorry, I   cannot  help. ''))) = ''Sorry, I cannot help.'' \<and>
   wrapper sample_loads ''Sorry, I   cannot  help. '' = VDict [] \<and>
   normalize_py sample_loads \<lparr> replies = [''Sorry, I   cannot  help. ''], metas = [Map.empty] \<rparr> = Inl KeyError"
proof -
  have n: "strip (join (split (replace_newlines ''Sorry, I   cannot  help. ''))) = ''Sorry, I cannot help.''"
    by (simp add: strip_def split_def replace_newlines_def is_space_def)
  then have "sample_loads (strip (join (split (replace_newlines ''Sorry, I   cannot  help. '')))) = None"
    by (simp add: sample_loads_def)
  then show ?thesis
    using n normalize_malformed_raises [where loads = sample_loads
        and reply = "''Sorry, I   cannot  help. ''" and rest = "[]" and ms = "[Map.empty]"]
    by simp
qed

end
